theory Spec2Isabelle
  imports Complex_Main
begin

section \<open>JavaScript numbers\<close>

text \<open>
  The program computes with JavaScript numbers.  They are modelled as exact reals
  extended with the two infinities and NaN, with the IEEE 754 rules for the
  exceptional cases (division by zero, logarithm of zero, infinity times zero, ...).
  The operations of this section are exact.  Overflow to infinity and the sign of
  zero are not modelled: a zero is the positive zero, which is what the program gets
  when a knob value is 0.  Rounding to binary64 is defined in its own section below
  and applied to the gain-reduction curve, where the order of two computed values
  depends on it.
\<close>

datatype jsnum = Fin real | PosInf | NegInf | NaN

text \<open>The infinity (or NaN) whose sign is the sign of a real.\<close>

definition inf_signed :: "real \<Rightarrow> jsnum" where
  "inf_signed s = (if s = 0 then NaN else if 0 < s then PosInf else NegInf)"

fun inf_sign :: "jsnum \<Rightarrow> real" where
  "inf_sign PosInf = 1"
| "inf_sign NegInf = - 1"
| "inf_sign (Fin a) = (if a < 0 then - 1 else 1)"
| "inf_sign NaN = 0"

fun js_neg :: "jsnum \<Rightarrow> jsnum" where
  "js_neg (Fin a) = Fin (- a)"
| "js_neg PosInf = NegInf"
| "js_neg NegInf = PosInf"
| "js_neg NaN = NaN"

fun js_add :: "jsnum \<Rightarrow> jsnum \<Rightarrow> jsnum" where
  "js_add (Fin a) (Fin b) = Fin (a + b)"
| "js_add NaN b = NaN"
| "js_add a NaN = NaN"
| "js_add PosInf NegInf = NaN"
| "js_add NegInf PosInf = NaN"
| "js_add PosInf b = PosInf"
| "js_add a PosInf = PosInf"
| "js_add NegInf b = NegInf"
| "js_add a NegInf = NegInf"

definition js_sub :: "jsnum \<Rightarrow> jsnum \<Rightarrow> jsnum" where
  "js_sub a b = js_add a (js_neg b)"

fun js_mul :: "jsnum \<Rightarrow> jsnum \<Rightarrow> jsnum" where
  "js_mul (Fin a) (Fin b) = Fin (a * b)"
| "js_mul NaN b = NaN"
| "js_mul a NaN = NaN"
| "js_mul (Fin a) b = inf_signed (a * inf_sign b)"
| "js_mul a (Fin b) = inf_signed (inf_sign a * b)"
| "js_mul a b = inf_signed (inf_sign a * inf_sign b)"

fun js_div :: "jsnum \<Rightarrow> jsnum \<Rightarrow> jsnum" where
  "js_div (Fin a) (Fin b) = (if b = 0 then inf_signed a else Fin (a / b))"
| "js_div NaN b = NaN"
| "js_div a NaN = NaN"
| "js_div (Fin a) b = Fin 0"
| "js_div a (Fin b) = inf_signed (inf_sign a * inf_sign (Fin b))"
| "js_div a b = NaN"

fun js_gt :: "jsnum \<Rightarrow> jsnum \<Rightarrow> bool" where
  "js_gt (Fin a) (Fin b) = (b < a)"
| "js_gt NaN b = False"
| "js_gt a NaN = False"
| "js_gt a PosInf = False"
| "js_gt NegInf b = False"
| "js_gt PosInf b = True"
| "js_gt a NegInf = True"

fun js_le :: "jsnum \<Rightarrow> jsnum \<Rightarrow> bool" where
  "js_le (Fin a) (Fin b) = (a \<le> b)"
| "js_le NaN b = False"
| "js_le a NaN = False"
| "js_le NegInf b = True"
| "js_le a PosInf = True"
| "js_le PosInf b = False"
| "js_le a NegInf = False"

fun js_abs :: "jsnum \<Rightarrow> jsnum" where
  "js_abs (Fin a) = Fin \<bar>a\<bar>"
| "js_abs PosInf = PosInf"
| "js_abs NegInf = PosInf"
| "js_abs NaN = NaN"

fun js_exp :: "jsnum \<Rightarrow> jsnum" where
  "js_exp (Fin a) = Fin (exp a)"
| "js_exp PosInf = PosInf"
| "js_exp NegInf = Fin 0"
| "js_exp NaN = NaN"

fun js_log10 :: "jsnum \<Rightarrow> jsnum" where
  "js_log10 (Fin a) = (if a < 0 then NaN else if a = 0 then NegInf else Fin (log 10 a))"
| "js_log10 PosInf = PosInf"
| "js_log10 NegInf = NaN"
| "js_log10 NaN = NaN"

text \<open>\<open>Math.pow(10, y)\<close>.\<close>

fun js_pow10 :: "jsnum \<Rightarrow> jsnum" where
  "js_pow10 (Fin y) = Fin (10 powr y)"
| "js_pow10 PosInf = PosInf"
| "js_pow10 NegInf = Fin 0"
| "js_pow10 NaN = NaN"

fun js_max :: "jsnum \<Rightarrow> jsnum \<Rightarrow> jsnum" where
  "js_max NaN b = NaN"
| "js_max a NaN = NaN"
| "js_max a b = (if js_gt b a then b else a)"

fun js_min :: "jsnum \<Rightarrow> jsnum \<Rightarrow> jsnum" where
  "js_min NaN b = NaN"
| "js_min a NaN = NaN"
| "js_min a b = (if js_gt a b then b else a)"

section \<open>Data model\<close>

text \<open>
  The compressor's parameters.  The knobs of the user interface keep the threshold in
  \<open>[-100, 0]\<close>, the knee in \<open>[0, 40]\<close>, the ratio in \<open>[1, 20]\<close>, and attack and
  release in \<open>[0, 1]\<close>.
\<close>

record ICompressorParams =
  threshold :: jsnum
  knee :: jsnum
  ratio :: jsnum
  attack :: jsnum
  release :: jsnum

definition DEFAULT_PARAMS :: ICompressorParams where
  "DEFAULT_PARAMS =
     \<lparr>threshold = Fin 0, knee = Fin 0, ratio = Fin 1, attack = Fin 0.003, release = Fin 0.01\<rparr>"

text \<open>
  An audio buffer: its sample rate and one sample array per channel
  (\<open>numberOfChannels\<close> is the number of arrays, \<open>getChannelData ch\<close> the array
  at position \<open>ch\<close>).  The sample rate of a buffer is positive.
\<close>

record AudioBuffer =
  sampleRate :: jsnum
  channelData :: "jsnum list list"

section \<open>The sample-accurate compressor (\<open>applyCustomCompression\<close>)\<close>

text \<open>\<open>Math.exp(-1 / (sampleRate * t))\<close>, the expression of both coefficients.\<close>

definition timeCoeff :: "jsnum \<Rightarrow> jsnum \<Rightarrow> jsnum" where
  "timeCoeff sr t = js_exp (js_div (Fin (- 1)) (js_mul sr t))"

text \<open>The envelope follower's update inside the sample loop.\<close>

definition envFollowerStep :: "jsnum \<Rightarrow> jsnum \<Rightarrow> jsnum \<Rightarrow> jsnum \<Rightarrow> jsnum" where
  "envFollowerStep attackCoeff releaseCoeff envFollower absSample =
     (if js_gt absSample envFollower
      then js_add absSample (js_mul (js_sub envFollower absSample) attackCoeff)
      else js_add absSample (js_mul (js_sub envFollower absSample) releaseCoeff))"

text \<open>\<open>v > 0 ? 20 * Math.log10(v) : -100\<close>\<close>

definition levelToDb :: "jsnum \<Rightarrow> jsnum" where
  "levelToDb v = (if js_gt v (Fin 0) then js_mul (Fin 20) (js_log10 v) else Fin (- 100))"

text \<open>
  The gain-reduction curve of the sample loop, from the level in dB, in exact
  arithmetic; \<open>gainReductionDbRounded\<close> below is the same expression with every
  operation rounded.
\<close>

definition gainReductionDb :: "jsnum \<Rightarrow> jsnum \<Rightarrow> jsnum \<Rightarrow> jsnum \<Rightarrow> jsnum" where
  "gainReductionDb thr kn rat envDb =
     (let kneeStart = js_sub thr (js_div kn (Fin 2));
          kneeEnd = js_add thr (js_div kn (Fin 2))
      in if js_gt envDb kneeEnd
         then js_mul (js_sub envDb thr) (js_sub (Fin 1) (js_div (Fin 1) rat))
         else if js_gt envDb kneeStart \<and> js_gt kn (Fin 0)
         then (let kneeRange = js_sub kneeEnd kneeStart;
                   x = js_sub envDb kneeStart
               in js_div (js_mul (js_sub (Fin 1) (js_div (Fin 1) rat)) (js_mul x x))
                         (js_mul (Fin 2) kneeRange))
         else Fin 0)"

text \<open>
  The loop over the samples of one channel; \<open>envFollower\<close> is the loop's state,
  0 at the first sample.  It returns the output samples.
\<close>

fun sampleLoop ::
  "ICompressorParams \<Rightarrow> jsnum \<Rightarrow> jsnum \<Rightarrow> jsnum \<Rightarrow> jsnum list \<Rightarrow> jsnum list" where
  "sampleLoop p attackCoeff releaseCoeff envFollower [] = []"
| "sampleLoop p attackCoeff releaseCoeff envFollower (sample # rest) =
     (let absSample = js_abs sample;
          envFollower' = envFollowerStep attackCoeff releaseCoeff envFollower absSample;
          envDb = levelToDb envFollower';
          gainReduction = gainReductionDb (threshold p) (knee p) (ratio p) envDb;
          gainLin = js_pow10 (js_div (js_neg gainReduction) (Fin 20))
      in js_mul sample gainLin
         # sampleLoop p attackCoeff releaseCoeff envFollower' rest)"

definition applyCustomCompression :: "ICompressorParams \<Rightarrow> AudioBuffer \<Rightarrow> AudioBuffer" where
  "applyCustomCompression p buffer =
     (let attackCoeff = timeCoeff (sampleRate buffer) (attack p);
          releaseCoeff = timeCoeff (sampleRate buffer) (release p)
      in \<lparr>sampleRate = sampleRate buffer,
          channelData = map (sampleLoop p attackCoeff releaseCoeff (Fin 0)) (channelData buffer)\<rparr>)"

section \<open>The visualization series (\<open>calculateEnvelope\<close>, \<open>calculateGainReduction\<close>)\<close>

text \<open>
  One step of a peak scan: \<open>absVal = Math.abs(d); if (absVal > peak) peak = absVal\<close>.
\<close>

definition peakStep :: "jsnum \<Rightarrow> jsnum \<Rightarrow> jsnum" where
  "peakStep d peak = (let absVal = js_abs d in if js_gt absVal peak then absVal else peak)"

text \<open>The peak of \<open>data[startIdx], ..., data[endIdx - 1]\<close>, starting from 0.\<close>

definition segmentPeak :: "jsnum list \<Rightarrow> nat \<Rightarrow> nat \<Rightarrow> jsnum" where
  "segmentPeak data startIdx endIdx = fold peakStep (map ((!) data) [startIdx..<endIdx]) (Fin 0)"

text \<open>\<open>Math.ceil(a / b)\<close> on array lengths.\<close>

definition ceilDiv :: "nat \<Rightarrow> nat \<Rightarrow> nat" where
  "ceilDiv a b = nat \<lceil>real a / real b\<rceil>"

text \<open>
  The loop over the output positions; \<open>envValue\<close> is the loop's state.  Each
  position stores \<open>Math.min(envValue, 1)\<close>.
\<close>

fun envelopeLoop ::
  "jsnum list \<Rightarrow> nat \<Rightarrow> jsnum \<Rightarrow> jsnum \<Rightarrow> jsnum \<Rightarrow> nat list \<Rightarrow> jsnum list" where
  "envelopeLoop data step attackCoeff releaseCoeff envValue [] = []"
| "envelopeLoop data step attackCoeff releaseCoeff envValue (i # rest) =
     (let startIdx = i * step;
          endIdx = min (startIdx + step) (length data);
          peak = segmentPeak data startIdx endIdx;
          envValue' =
            (if js_gt peak envValue
             then js_add envValue (js_mul (js_sub peak envValue) (js_sub (Fin 1) attackCoeff))
             else js_add envValue (js_mul (js_sub peak envValue) (js_sub (Fin 1) releaseCoeff)))
      in js_min envValue' (Fin 1)
         # envelopeLoop data step attackCoeff releaseCoeff envValue' rest)"

definition calculateEnvelope ::
  "jsnum list \<Rightarrow> jsnum \<Rightarrow> jsnum \<Rightarrow> jsnum \<Rightarrow> nat \<Rightarrow> jsnum list" where
  "calculateEnvelope data sr att rel outputLength =
     (let step = ceilDiv (length data) outputLength;
          safeAttack = js_max att (Fin 0.00001);
          safeRelease = js_max rel (Fin 0.00001);
          attackCoeff = timeCoeff sr safeAttack;
          releaseCoeff = timeCoeff sr safeRelease
      in envelopeLoop data step attackCoeff releaseCoeff (Fin 0) [0..<outputLength])"

text \<open>
  \<open>envelope[envIdx]\<close>.  Outside the array the read gives \<open>undefined\<close>, whose only
  use is the comparison \<open>envValue > 0\<close>, where it is NaN.
\<close>

definition envelopeAt :: "jsnum list \<Rightarrow> int \<Rightarrow> jsnum" where
  "envelopeAt env idx = (if 0 \<le> idx \<and> idx < int (length env) then env ! nat idx else NaN)"

text \<open>
  The instantaneous gain reduction of the visualization, from the level in dB, in
  exact arithmetic; \<open>instantGainReductionRounded\<close> below rounds every operation.
\<close>

definition instantGainReduction :: "jsnum \<Rightarrow> jsnum \<Rightarrow> jsnum \<Rightarrow> jsnum \<Rightarrow> jsnum" where
  "instantGainReduction thresholdDb kneeDb rat inputDb =
     (let kneeStart = js_sub thresholdDb (js_div kneeDb (Fin 2));
          kneeEnd = js_add thresholdDb (js_div kneeDb (Fin 2));
          kneeRange = js_sub kneeEnd kneeStart
      in if js_gt inputDb kneeEnd
         then js_mul (js_sub inputDb thresholdDb) (js_sub (Fin 1) (js_div (Fin 1) rat))
         else if js_gt inputDb kneeStart \<and> js_gt kneeDb (Fin 0) \<and> js_gt kneeRange (Fin 0)
         then (let x = js_sub inputDb kneeStart
               in js_div (js_mul (js_sub (Fin 1) (js_div (Fin 1) rat)) (js_mul x x))
                         (js_mul (Fin 2) kneeRange))
         else Fin 0)"

fun gainReductionLoop ::
  "jsnum list \<Rightarrow> nat \<Rightarrow> jsnum \<Rightarrow> jsnum \<Rightarrow> jsnum \<Rightarrow> jsnum \<Rightarrow> jsnum \<Rightarrow> jsnum \<Rightarrow> nat list
     \<Rightarrow> jsnum list" where
  "gainReductionLoop env step thresholdDb kneeDb rat attackCoeff releaseCoeff grSmoothed [] = []"
| "gainReductionLoop env step thresholdDb kneeDb rat attackCoeff releaseCoeff grSmoothed (i # rest) =
     (let envIdx = min (int (i * step)) (int (length env) - 1);
          envValue = envelopeAt env envIdx;
          inputDb = levelToDb envValue;
          gr = instantGainReduction thresholdDb kneeDb rat inputDb;
          grSmoothed' =
            (if js_gt gr grSmoothed
             then js_add gr (js_mul (js_sub grSmoothed gr) attackCoeff)
             else js_add gr (js_mul (js_sub grSmoothed gr) releaseCoeff))
      in grSmoothed'
         # gainReductionLoop env step thresholdDb kneeDb rat attackCoeff releaseCoeff grSmoothed' rest)"

definition calculateGainReduction ::
  "jsnum list \<Rightarrow> jsnum \<Rightarrow> jsnum \<Rightarrow> jsnum \<Rightarrow> jsnum \<Rightarrow> jsnum \<Rightarrow> jsnum \<Rightarrow> nat \<Rightarrow> jsnum list" where
  "calculateGainReduction env sr thresholdDb kneeDb rat att rel outputLength =
     (if js_le rat (Fin 1) then replicate outputLength (Fin 0)
      else
        (let step = (let c = ceilDiv (length env) outputLength in if c = 0 then 1 else c);
             safeAttack = js_max att (Fin 0.00001);
             safeRelease = js_max rel (Fin 0.00001);
             grAttackTime = js_mul safeAttack (Fin 0.001);
             grReleaseTime = js_mul safeRelease (Fin 0.001);
             attackCoeff = timeCoeff sr grAttackTime;
             releaseCoeff = timeCoeff sr grReleaseTime
         in gainReductionLoop env step thresholdDb kneeDb rat attackCoeff releaseCoeff (Fin 0)
              [0..<outputLength]))"

text \<open>
  What the \<open>Waveshape\<close> component computes for drawing: the envelope of channel 0
  of the original buffer and the gain reduction derived from it, both for
  \<open>width\<close> positions; nothing without a buffer.
\<close>

record Series =
  envelope :: "jsnum list"
  gainReduction :: "jsnum list"

definition waveshapeSeries ::
  "AudioBuffer option \<Rightarrow> jsnum \<Rightarrow> jsnum \<Rightarrow> jsnum \<Rightarrow> jsnum \<Rightarrow> jsnum \<Rightarrow> nat \<Rightarrow> Series option" where
  "waveshapeSeries originalBuffer thresholdDb kneeDb rat att rel width =
     (case originalBuffer of
        None \<Rightarrow> None
      | Some b \<Rightarrow>
          (case channelData b of
             [] \<Rightarrow> None
           | data # others \<Rightarrow>
               (let env = calculateEnvelope data (sampleRate b) att rel width
                in Some \<lparr>envelope = env,
                         gainReduction =
                           calculateGainReduction env (sampleRate b) thresholdDb kneeDb rat
                             att rel width\<rparr>)))"

section \<open>Peak normalization of the rendered buffer (\<open>applyCompression\<close> of the node variant)\<close>

definition maxPeakOf :: "jsnum list list \<Rightarrow> jsnum" where
  "maxPeakOf chans = fold (\<lambda>data maxPeak. fold peakStep data maxPeak) chans (Fin 0)"

definition normalizePeak :: "AudioBuffer \<Rightarrow> AudioBuffer" where
  "normalizePeak renderedBuffer =
     (let maxPeak = maxPeakOf (channelData renderedBuffer)
      in if js_gt maxPeak (Fin 1)
         then (let gain = js_div (Fin 1) maxPeak
               in renderedBuffer
                    \<lparr>channelData := map (map (\<lambda>d. js_mul d gain)) (channelData renderedBuffer)\<rparr>)
         else renderedBuffer)"

section \<open>Rounding to binary64\<close>

text \<open>
  A JavaScript operation returns the binary64 number nearest to the exact result,
  the one with the even significand on a tie.  \<open>roundHalfEven\<close> is the nearest
  integer, ties to even; a positive \<open>a\<close> with \<open>2^e \<le> a < 2^(e+1)\<close> is rounded on the
  grid of spacing \<open>2^(e-52)\<close> (a significand of 53 bits).  The exponent range is not
  bounded: there is no overflow and there are no subnormal numbers.
\<close>

definition roundHalfEven :: "real \<Rightarrow> int" where
  "roundHalfEven y = (let f = \<lfloor>y\<rfloor>; d = y - of_int f
            in if d < 1 / 2 then f else if 1 / 2 < d then f + 1
               else if even f then f else f + 1)"

definition roundMagnitude :: "real \<Rightarrow> real" where
  "roundMagnitude a = (let u = 2 powr (of_int \<lfloor>log 2 a\<rfloor> - 52) in of_int (roundHalfEven (a / u)) * u)"

definition roundDouble :: "real \<Rightarrow> real" where
  "roundDouble x = (if x = 0 then 0 else if 0 < x then roundMagnitude x else - roundMagnitude (- x))"

fun js_round :: "jsnum \<Rightarrow> jsnum" where
  "js_round (Fin a) = Fin (roundDouble a)"
| "js_round PosInf = PosInf"
| "js_round NegInf = NegInf"
| "js_round NaN = NaN"

text \<open>The four arithmetic operations as JavaScript computes them: exact, then rounded.\<close>

definition fl_add :: "jsnum \<Rightarrow> jsnum \<Rightarrow> jsnum" where
  "fl_add a b = js_round (js_add a b)"

definition fl_sub :: "jsnum \<Rightarrow> jsnum \<Rightarrow> jsnum" where
  "fl_sub a b = js_round (js_sub a b)"

definition fl_mul :: "jsnum \<Rightarrow> jsnum \<Rightarrow> jsnum" where
  "fl_mul a b = js_round (js_mul a b)"

definition fl_div :: "jsnum \<Rightarrow> jsnum \<Rightarrow> jsnum" where
  "fl_div a b = js_round (js_div a b)"



section \<open>The same computations on finite values\<close>

text \<open>
  On finite arguments the program's arithmetic stays finite.  The functions below
  are what the program's functions compute there; the lemmas of the next section
  prove it, and the properties are then shown by real arithmetic.
\<close>

fun isFinite :: "jsnum \<Rightarrow> bool" where
  "isFinite (Fin a) = True"
| "isFinite PosInf = False"
| "isFinite NegInf = False"
| "isFinite NaN = False"

text \<open>A coefficient: the division by a zero product gives \<open>-Infinity\<close>, whose exponential is 0.\<close>

definition realCoeff :: "real \<Rightarrow> real \<Rightarrow> real" where
  "realCoeff sr t = (if sr * t = 0 then 0 else exp (- 1 / (sr * t)))"

text \<open>
  The gain-reduction curve for a threshold \<open>t\<close>, a knee \<open>k\<close>, a ratio \<open>r\<close> and a
  level \<open>l\<close> in dB; the knee range \<open>kneeEnd - kneeStart\<close> is \<open>k\<close>.
\<close>

definition realCurve :: "real \<Rightarrow> real \<Rightarrow> real \<Rightarrow> real \<Rightarrow> real" where
  "realCurve t k r l =
     (if t + k / 2 < l then (l - t) * (1 - 1 / r)
      else if t - k / 2 < l \<and> 0 < k
      then (1 - 1 / r) * ((l - (t - k / 2)) * (l - (t - k / 2))) / (2 * k)
      else 0)"

text \<open>The level in dB of a linear level, with the floor of \<open>-100\<close> dB.\<close>

definition realDb :: "real \<Rightarrow> real" where
  "realDb v = (if 0 < v then 20 * log 10 v else - 100)"

text \<open>
  The one-pole update \<open>x + (e - x) * coeff\<close> of the sample loop's envelope follower,
  and of the smoothing of the visualization's gain reduction.
\<close>

definition realFollow :: "real \<Rightarrow> real \<Rightarrow> real \<Rightarrow> real \<Rightarrow> real" where
  "realFollow ac rc e x = x + (e - x) * (if e < x then ac else rc)"

text \<open>The sample loop of the compressor on finite values.\<close>

fun realSampleLoop ::
  "real \<Rightarrow> real \<Rightarrow> real \<Rightarrow> real \<Rightarrow> real \<Rightarrow> real \<Rightarrow> real list \<Rightarrow> real list" where
  "realSampleLoop t k r ac rc e [] = []"
| "realSampleLoop t k r ac rc e (x # xs) =
     (let e' = realFollow ac rc e \<bar>x\<bar>
      in x * 10 powr (- realCurve t k r (realDb e') / 20) # realSampleLoop t k r ac rc e' xs)"

text \<open>The maximum absolute sample of a run of samples, 0 for an empty run.\<close>

definition realPeak :: "real list \<Rightarrow> real" where
  "realPeak xs = Max (insert 0 (abs ` set xs))"

text \<open>
  The per-segment update of \<open>calculateEnvelope\<close>: from the state \<open>s\<close> towards the
  peak \<open>x\<close> by the fraction \<open>1 - coeff\<close>.
\<close>

definition realSegmentStep :: "real \<Rightarrow> real \<Rightarrow> real \<Rightarrow> real \<Rightarrow> real" where
  "realSegmentStep ac rc s x = s + (x - s) * (1 - (if s < x then ac else rc))"

text \<open>
  The per-segment update as the specification words it,
  \<open>s' = x + (s - x) * (1 - coeff)\<close>.
\<close>

definition claimedSegmentStep :: "real \<Rightarrow> real \<Rightarrow> real \<Rightarrow> real \<Rightarrow> real" where
  "claimedSegmentStep ac rc s x = x + (s - x) * (1 - (if s < x then ac else rc))"

text \<open>
  The segment-peak envelope for a given update: segment \<open>i\<close> is the \<open>segLen\<close>
  samples from position \<open>i * segLen\<close> (fewer, or none, at the end of the data); the
  state moves once per segment, and each output is the state clamped at 1.
\<close>

fun segmentEnvelope ::
  "(real \<Rightarrow> real \<Rightarrow> real) \<Rightarrow> nat \<Rightarrow> real list \<Rightarrow> real \<Rightarrow> nat list \<Rightarrow> real list" where
  "segmentEnvelope upd segLen data s [] = []"
| "segmentEnvelope upd segLen data s (i # rest) =
     (let x = realPeak (take segLen (drop (i * segLen) data));
          s' = upd s x
      in min s' 1 # segmentEnvelope upd segLen data s' rest)"

text \<open>The level in dB of the envelope at an index; \<open>-100\<close> outside the array.\<close>

definition realEnvDb :: "real list \<Rightarrow> int \<Rightarrow> real" where
  "realEnvDb es idx = (if 0 \<le> idx \<and> idx < int (length es) then realDb (es ! nat idx) else - 100)"

text \<open>The gain-reduction loop of the visualization on finite values.\<close>

fun realGrLoop ::
  "real list \<Rightarrow> nat \<Rightarrow> real \<Rightarrow> real \<Rightarrow> real \<Rightarrow> real \<Rightarrow> real \<Rightarrow> real \<Rightarrow> nat list \<Rightarrow> real list" where
  "realGrLoop es step t k r ac rc g [] = []"
| "realGrLoop es step t k r ac rc g (i # rest) =
     (let l = realEnvDb es (min (int (i * step)) (int (length es) - 1));
          g' = realFollow ac rc g (realCurve t k r l)
      in g' # realGrLoop es step t k r ac rc g' rest)"




section \<open>Lemmas\<close>

lemma js_sub_Fin [simp]: "js_sub (Fin a) (Fin b) = Fin (a - b)"
  by (simp add: js_sub_def)

lemma timeCoeff_Fin: "timeCoeff (Fin sr) (Fin t) = Fin (realCoeff sr t)"
  by (simp add: timeCoeff_def realCoeff_def inf_signed_def)

lemma gainReductionDb_Fin:
  "r \<noteq> 0 \<Longrightarrow> gainReductionDb (Fin t) (Fin k) (Fin r) (Fin l) = Fin (realCurve t k r l)"
  by (simp add: gainReductionDb_def realCurve_def Let_def)

lemma instantGainReduction_Fin:
  "r \<noteq> 0 \<Longrightarrow> instantGainReduction (Fin t) (Fin k) (Fin r) (Fin l) = Fin (realCurve t k r l)"
  by (simp add: instantGainReduction_def realCurve_def Let_def)

lemma levelToDb_Fin: "levelToDb (Fin v) = Fin (realDb v)"
  by (simp add: levelToDb_def realDb_def)

lemma envFollowerStep_Fin:
  "envFollowerStep (Fin ac) (Fin rc) (Fin e) (Fin x) = Fin (realFollow ac rc e x)"
  by (simp add: envFollowerStep_def realFollow_def)

lemma sampleLoop_Fin:
  "r \<noteq> 0 \<Longrightarrow>
   sampleLoop \<lparr>threshold = Fin t, knee = Fin k, ratio = Fin r, attack = a, release = b\<rparr>
      (Fin ac) (Fin rc) (Fin e) (map Fin xs) = map Fin (realSampleLoop t k r ac rc e xs)"
  by (induction xs arbitrary: e)
     (simp_all add: Let_def envFollowerStep_Fin levelToDb_Fin gainReductionDb_Fin)

lemma applyCustomCompression_Fin:
  assumes "r \<noteq> 0"
  shows "applyCustomCompression
     \<lparr>threshold = Fin t, knee = Fin k, ratio = Fin r, attack = Fin a, release = Fin b\<rparr>
     \<lparr>sampleRate = Fin sr, channelData = map (map Fin) chans\<rparr>
   = \<lparr>sampleRate = Fin sr,
      channelData =
        map (map Fin) (map (realSampleLoop t k r (realCoeff sr a) (realCoeff sr b) 0) chans)\<rparr>"
  by (simp add: applyCustomCompression_def Let_def timeCoeff_Fin sampleLoop_Fin [OF assms])

lemma length_realSampleLoop: "length (realSampleLoop t k r ac rc e xs) = length xs"
  by (induction xs arbitrary: e) (simp_all add: Let_def)

subsection \<open>The curve on the reals\<close>

lemma realCurve_below:
  assumes "0 \<le> k" and "l \<le> t - k / 2"
  shows "realCurve t k r l = 0"
  using assms by (simp add: realCurve_def)

lemma realCurve_above:
  assumes "0 \<le> k" and "t + k / 2 \<le> l"
  shows "realCurve t k r l = (l - t) * (1 - 1 / r)"
proof (cases "t + k / 2 < l")
  case True
  then show ?thesis by (simp add: realCurve_def)
next
  case False
  then have e: "l = t + k / 2" using assms by simp
  show ?thesis
  proof (cases "0 < k")
    case True
    then show ?thesis using e by (simp add: realCurve_def field_simps)
  next
    case False
    then have "k = 0" using assms by simp
    then show ?thesis using e by (simp add: realCurve_def)
  qed
qed

lemma realCurve_ratio1: "realCurve t k 1 l = 0"
  by (simp add: realCurve_def)

lemma realCurve_nonneg:
  assumes "0 \<le> k" "1 \<le> r"
  shows "0 \<le> realCurve t k r l"
proof -
  have f: "0 \<le> 1 - 1 / r" using assms by simp
  show ?thesis
    unfolding realCurve_def using f assms
    by (auto intro!: mult_nonneg_nonneg divide_nonneg_nonneg)
qed

lemma realCurve_mono:
  assumes k: "0 \<le> k" and r: "1 \<le> r" and l: "l1 \<le> l2"
  shows "realCurve t k r l1 \<le> realCurve t k r l2"
proof -
  define c where "c = 1 - 1 / r"
  have c: "0 \<le> c" using r by (simp add: c_def)
  define f where "f l = (if t + k / 2 < l then l - t
      else if t - k / 2 < l \<and> 0 < k then ((l - (t - k / 2)) * (l - (t - k / 2))) / (2 * k)
      else 0)" for l
  have curve: "realCurve t k r l = c * f l" for l
    by (simp add: realCurve_def f_def c_def)
  have knee_le: "(x * x) / (2 * k) \<le> k / 2" if "0 < x" "x \<le> k" for x
  proof -
    have "x * x \<le> k * k" using that by (intro mult_mono) simp_all
    then have "(x * x) / (2 * k) \<le> (k * k) / (2 * k)"
      using that by (intro divide_right_mono) simp_all
    then show ?thesis using that by simp
  qed
  have f0: "0 \<le> f l" for l
    using k by (auto simp: f_def)
  have "f l1 \<le> f l2"
  proof (cases "t + k / 2 < l1")
    case True
    then show ?thesis using l by (simp add: f_def)
  next
    case hi1: False
    show ?thesis
    proof (cases "t - k / 2 < l1 \<and> 0 < k")
      case False
      then have "f l1 = 0" using hi1 by (auto simp: f_def)
      then show ?thesis using f0 [of l2] by simp
    next
      case kn1: True
      show ?thesis
      proof (cases "t + k / 2 < l2")
        case True
        have "f l1 = ((l1 - (t - k / 2)) * (l1 - (t - k / 2))) / (2 * k)"
          using hi1 kn1 by (simp add: f_def)
        also have "\<dots> \<le> k / 2" using hi1 kn1 by (intro knee_le) simp_all
        also have "\<dots> \<le> l2 - t" using True by simp
        also have "\<dots> = f l2" using True by (simp add: f_def)
        finally show ?thesis .
      next
        case False
        have "(l1 - (t - k / 2)) * (l1 - (t - k / 2)) \<le> (l2 - (t - k / 2)) * (l2 - (t - k / 2))"
          using kn1 l by (intro mult_mono) simp_all
        then have "((l1 - (t - k / 2)) * (l1 - (t - k / 2))) / (2 * k)
                 \<le> ((l2 - (t - k / 2)) * (l2 - (t - k / 2))) / (2 * k)"
          using kn1 by (intro divide_right_mono) simp_all
        then show ?thesis using hi1 kn1 False l by (simp add: f_def)
      qed
    qed
  qed
  then show ?thesis using c by (simp add: curve mult_left_mono)
qed

subsection \<open>The sample loop on the reals\<close>

lemma realSampleLoop_ratio1: "realSampleLoop t k 1 ac rc e xs = xs"
  by (induction xs arbitrary: e) (simp_all add: Let_def realCurve_ratio1)

lemma gain_le_1: "0 \<le> g \<Longrightarrow> \<bar>x * 10 powr (- (g / 20))\<bar> \<le> \<bar>x::real\<bar>"
proof -
  assume "0 \<le> g"
  then have "10 powr (- g / 20) \<le> (10::real) powr 0"
    by (intro powr_mono) simp_all
  then have "10 powr (- g / 20) \<le> (1::real)" by simp
  then have "\<bar>x\<bar> * 10 powr (- g / 20) \<le> \<bar>x\<bar> * 1"
    by (intro mult_left_mono) simp_all
  then show ?thesis by (simp add: abs_mult)
qed

lemma realSampleLoop_bounded:
  assumes "0 \<le> k" "1 \<le> r"
  shows "list_all2 (\<lambda>y x. \<bar>y\<bar> \<le> \<bar>x\<bar>) (realSampleLoop t k r ac rc e xs) xs"
  by (induction xs arbitrary: e)
     (simp_all add: Let_def gain_le_1 realCurve_nonneg [OF assms])


subsection \<open>The visualization on finite values\<close>

lemma peakStep_Fin: "peakStep (Fin d) (Fin m) = Fin (max m \<bar>d\<bar>)"
  by (simp add: peakStep_def Let_def max_def)

lemma fold_peakStep_Fin:
  "fold peakStep (map Fin xs) (Fin m) = Fin (Max (insert m (abs ` set xs)))"
proof (induction xs arbitrary: m)
  case Nil
  then show ?case by simp
next
  case (Cons x xs)
  have "Max (insert (max m \<bar>x\<bar>) (abs ` set xs)) = Max (insert m (insert \<bar>x\<bar> (abs ` set xs)))"
    by (cases "xs = []") (simp_all add: max.assoc)
  then show ?case by (simp add: peakStep_Fin Cons.IH)
qed

lemma segment_slice:
  "map ((!) xs) [s..<min (s + n) (length xs)] = take n (drop s xs)"
proof (rule nth_equalityI)
  show "length (map ((!) xs) [s..<min (s + n) (length xs)]) = length (take n (drop s xs))"
    by (auto simp: min_def)
next
  fix i
  assume "i < length (map ((!) xs) [s..<min (s + n) (length xs)])"
  then have "i < n" and "s + i < length xs" by (simp_all add: min_def split: if_splits)
  then show "map ((!) xs) [s..<min (s + n) (length xs)] ! i = take n (drop s xs) ! i"
    by simp
qed

lemma segmentPeak_Fin:
  "segmentPeak (map Fin data) s (min (s + n) (length data)) = Fin (realPeak (take n (drop s data)))"
proof -
  have "map ((!) (map Fin data)) [s..<min (s + n) (length data)]
      = map Fin (map ((!) data) [s..<min (s + n) (length data)])"
    by simp
  then show ?thesis
    unfolding segmentPeak_def realPeak_def
    by (simp only: segment_slice fold_peakStep_Fin)
qed

lemma js_min_Fin: "js_min (Fin a) (Fin b) = Fin (min a b)"
  by (simp add: min_def)

lemma js_max_Fin: "js_max (Fin a) (Fin b) = Fin (max a b)"
  by (simp add: max_def)

lemma segment_update_Fin:
  "(if js_gt (Fin x) (Fin s)
    then js_add (Fin s) (js_mul (js_sub (Fin x) (Fin s)) (js_sub (Fin 1) (Fin ac)))
    else js_add (Fin s) (js_mul (js_sub (Fin x) (Fin s)) (js_sub (Fin 1) (Fin rc))))
   = Fin (realSegmentStep ac rc s x)"
  by (simp add: realSegmentStep_def)

lemma envelopeLoop_Fin:
  "envelopeLoop (map Fin data) step (Fin ac) (Fin rc) (Fin s) idxs
     = map Fin (segmentEnvelope (realSegmentStep ac rc) step data s idxs)"
proof (induction idxs arbitrary: s)
  case Nil
  then show ?case by simp
next
  case (Cons i idxs)
  have pk: "segmentPeak (map Fin data) (i * step) (min (i * step + step) (length (map Fin data)))
          = Fin (realPeak (take step (drop (i * step) data)))"
    using segmentPeak_Fin [of data "i * step" step] by simp
  show ?case
    unfolding envelopeLoop.simps segmentEnvelope.simps Let_def pk segment_update_Fin
      js_min_Fin Cons.IH
    by simp
qed

lemma calculateEnvelope_Fin:
  "calculateEnvelope (map Fin data) (Fin sr) (Fin a) (Fin b) n
     = map Fin (segmentEnvelope
         (realSegmentStep (realCoeff sr (max a 0.00001)) (realCoeff sr (max b 0.00001)))
         (ceilDiv (length data) n) data 0 [0..<n])"
  by (simp add: calculateEnvelope_def Let_def js_max_Fin timeCoeff_Fin envelopeLoop_Fin)

lemma envelope_level_Fin: "levelToDb (envelopeAt (map Fin es) idx) = Fin (realEnvDb es idx)"
proof (cases "0 \<le> idx \<and> idx < int (length es)")
  case True
  then have "nat idx < length es" by (simp add: nat_less_iff)
  then have "envelopeAt (map Fin es) idx = Fin (es ! nat idx)"
    using True by (simp add: envelopeAt_def)
  then show ?thesis using True by (simp add: levelToDb_Fin realEnvDb_def)
next
  case False
  then have "envelopeAt (map Fin es) idx = NaN" by (auto simp: envelopeAt_def)
  then show ?thesis using False by (auto simp: levelToDb_def realEnvDb_def)
qed

lemma smooth_update_Fin:
  "(if js_gt (Fin x) (Fin g)
    then js_add (Fin x) (js_mul (js_sub (Fin g) (Fin x)) (Fin ac))
    else js_add (Fin x) (js_mul (js_sub (Fin g) (Fin x)) (Fin rc)))
   = Fin (realFollow ac rc g x)"
  by (simp add: realFollow_def)

lemma gainReductionLoop_Fin:
  assumes "r \<noteq> 0"
  shows "gainReductionLoop (map Fin es) step (Fin t) (Fin k) (Fin r) (Fin ac) (Fin rc) (Fin g) idxs
     = map Fin (realGrLoop es step t k r ac rc g idxs)"
proof (induction idxs arbitrary: g)
  case Nil
  then show ?case by simp
next
  case (Cons i idxs)
  show ?case
    unfolding gainReductionLoop.simps realGrLoop.simps Let_def envelope_level_Fin
      instantGainReduction_Fin [OF assms] smooth_update_Fin Cons.IH
    by simp
qed

lemma realCoeff_unit:
  assumes "0 < sr" and "0 < t"
  shows "0 \<le> realCoeff sr t \<and> realCoeff sr t \<le> 1"
proof -
  have "0 < sr * t" using assms by simp
  then show ?thesis by (simp add: realCoeff_def)
qed

lemma realPeak_nonneg: "0 \<le> realPeak xs"
  by (simp add: realPeak_def)

lemma blend_nonneg:
  fixes c :: real
  assumes "0 \<le> c" "c \<le> 1" "0 \<le> u" "0 \<le> v"
  shows "0 \<le> u + (v - u) * c"
proof -
  have "u + (v - u) * c = u * (1 - c) + v * c" by (simp add: algebra_simps)
  moreover have "0 \<le> u * (1 - c)" using assms by simp
  moreover have "0 \<le> v * c" using assms by simp
  ultimately show ?thesis by simp
qed

lemma realSegmentStep_nonneg:
  assumes "0 \<le> ac" "ac \<le> 1" "0 \<le> rc" "rc \<le> 1" "0 \<le> s" "0 \<le> x"
  shows "0 \<le> realSegmentStep ac rc s x"
proof -
  have "0 \<le> s + (x - s) * (1 - c)" if "0 \<le> c" "c \<le> 1" for c
    using blend_nonneg [of "1 - c" s x] that assms by simp
  then show ?thesis using assms by (simp add: realSegmentStep_def)
qed

lemma realFollow_nonneg:
  assumes "0 \<le> ac" "ac \<le> 1" "0 \<le> rc" "rc \<le> 1" "0 \<le> g" "0 \<le> x"
  shows "0 \<le> realFollow ac rc g x"
  using assms by (simp add: realFollow_def blend_nonneg)

lemma segmentEnvelope_range:
  assumes "0 \<le> ac" "ac \<le> 1" "0 \<le> rc" "rc \<le> 1"
  shows "0 \<le> s \<Longrightarrow>
    list_all (\<lambda>v. 0 \<le> v \<and> v \<le> 1) (segmentEnvelope (realSegmentStep ac rc) segLen data s idxs)"
proof (induction idxs arbitrary: s)
  case Nil
  then show ?case by simp
next
  case (Cons i idxs)
  have "0 \<le> realSegmentStep ac rc s (realPeak (take segLen (drop (i * segLen) data)))"
    using assms Cons.prems by (intro realSegmentStep_nonneg realPeak_nonneg)
  then show ?case by (simp add: Let_def Cons.IH)
qed

lemma realGrLoop_nonneg:
  assumes "0 \<le> ac" "ac \<le> 1" "0 \<le> rc" "rc \<le> 1" "0 \<le> k" "1 \<le> r"
  shows "0 \<le> g \<Longrightarrow> list_all (\<lambda>v. 0 \<le> v) (realGrLoop es step t k r ac rc g idxs)"
proof (induction idxs arbitrary: g)
  case Nil
  then show ?case by simp
next
  case (Cons i idxs)
  have "0 \<le> realFollow ac rc g (realCurve t k r l)" for l
    using assms Cons.prems by (intro realFollow_nonneg realCurve_nonneg)
  then show ?case by (simp add: Let_def Cons.IH)
qed

lemma length_segmentEnvelope: "length (segmentEnvelope upd segLen data s idxs) = length idxs"
  by (induction idxs arbitrary: s) (simp_all add: Let_def)

lemma length_realGrLoop: "length (realGrLoop es step t k r ac rc g idxs) = length idxs"
  by (induction idxs arbitrary: g) (simp_all add: Let_def)

lemma calculateGainReduction_Fin:
  assumes "1 < r"
  shows "calculateGainReduction (map Fin es) (Fin sr) (Fin t) (Fin k) (Fin r) (Fin a) (Fin b) n
     = map Fin (realGrLoop es (let c = ceilDiv (length es) n in if c = 0 then 1 else c) t k r
         (realCoeff sr (max a 0.00001 * 0.001)) (realCoeff sr (max b 0.00001 * 0.001)) 0 [0..<n])"
proof -
  have r0: "r \<noteq> 0" using assms by simp
  show ?thesis
    using assms
    by (simp add: calculateGainReduction_def Let_def js_max_Fin timeCoeff_Fin
        gainReductionLoop_Fin [OF r0])
qed

lemma ceilDiv_1_1: "ceilDiv (Suc 0) (Suc 0) = Suc 0"
  by (simp add: ceilDiv_def)

lemma realPeak_single: "realPeak [x] = max 0 \<bar>x\<bar>"
  by (simp add: realPeak_def)

lemma exp_gt_half: "1 / 2 < exp (- (1000 / 132300) :: real)"
proof -
  have "1 + (- (1000 / 132300)) \<le> exp (- (1000 / 132300) :: real)"
    by (rule exp_ge_add_one_self)
  then show ?thesis by simp
qed

lemma list_all_map_Fin: "list_all P (map Fin xs) = list_all (\<lambda>v. P (Fin v)) xs"
  by (simp add: list_all_iff)

subsection \<open>Peak normalization on finite values\<close>

lemma maxPeakOf_Fin: "maxPeakOf (map (map Fin) rs) = Fin (realPeak (concat rs))"
proof -
  have "fold (\<lambda>data maxPeak. fold peakStep data maxPeak) (map (map Fin) rs) m
      = fold peakStep (map Fin (concat rs)) m" for m
    by (induction rs arbitrary: m) simp_all
  then show ?thesis
    by (simp add: maxPeakOf_def realPeak_def fold_peakStep_Fin)
qed

lemma abs_le_realPeak: "x \<in> set xs \<Longrightarrow> \<bar>x\<bar> \<le> realPeak xs"
  by (simp add: realPeak_def)

lemma realPeak_le_iff: "realPeak xs \<le> c \<longleftrightarrow> 0 \<le> c \<and> (\<forall>x\<in>set xs. \<bar>x\<bar> \<le> c)"
  by (simp add: realPeak_def)

lemma realPeak_scaled:
  assumes "1 < realPeak (concat rs)"
  shows "realPeak (concat (map (map (\<lambda>d. d * (1 / realPeak (concat rs)))) rs)) \<le> 1"
proof -
  define p where "p = realPeak (concat rs)"
  have p: "0 < p" using assms by (simp add: p_def)
  have "\<bar>d * (1 / p)\<bar> \<le> 1" if "d \<in> set (concat rs)" for d
  proof -
    have "\<bar>d\<bar> \<le> p" using that by (simp add: p_def abs_le_realPeak)
    then show ?thesis using p by (simp add: abs_mult)
  qed
  then show ?thesis
    unfolding realPeak_le_iff p_def [symmetric] by auto
qed

lemma realPeak_example: "realPeak [2, - 4, 1] = 4"
  by (simp add: realPeak_def)

subsection \<open>The compressor at attack 0, with and without a floor\<close>

lemma unfloored_output:
  "applyCustomCompression
        \<lparr>threshold = Fin (- 20), knee = Fin 0, ratio = Fin 2, attack = Fin 0, release = Fin 0\<rparr>
        \<lparr>sampleRate = Fin 44100, channelData = map (map Fin) [[1]]\<rparr>
      = \<lparr>sampleRate = Fin 44100, channelData = [[Fin (10 powr (- (1 / 2)))]]\<rparr>"
  unfolding applyCustomCompression_Fin [of 2, simplified]
  by (simp add: realCoeff_def realFollow_def realDb_def realCurve_def)

lemma floored_output:
  "applyCustomCompression
        \<lparr>threshold = Fin (- 20), knee = Fin 0, ratio = Fin 2,
         attack = Fin 0.00001, release = Fin 0.00001\<rparr>
        \<lparr>sampleRate = Fin 44100, channelData = map (map Fin) [[1]]\<rparr>
      \<noteq> \<lparr>sampleRate = Fin 44100, channelData = [[Fin (10 powr (- (1 / 2)))]]\<rparr>"
proof -
  define c :: real where "c = realCoeff 44100 (1 / 100000)"
  have c: "0 < c" "c < 1" by (simp_all add: c_def realCoeff_def)
  define l where "l = realDb (1 - c)"
  have l: "l = 20 * log 10 (1 - c)" using c by (simp add: l_def realDb_def)
  have "log 10 (1 - c) < log 10 1" using c by (subst log_less_cancel_iff) simp_all
  then have l0: "l < 0" by (simp add: l)
  have g: "realCurve (- 20) 0 2 l \<noteq> 10"
    using l0 by (simp add: realCurve_def)
  have "(10::real) powr (- realCurve (- 20) 0 2 l / 20) \<noteq> 10 powr (- (1 / 2))"
  proof
    assume "(10::real) powr (- realCurve (- 20) 0 2 l / 20) = 10 powr (- (1 / 2))"
    then have "- realCurve (- 20) 0 2 l / 20 = - (1 / 2)"
      by (subst (asm) powr_inj) simp_all
    then show False using g by simp
  qed
  moreover have "realFollow c c 0 1 = 1 - c" by (simp add: realFollow_def)
  ultimately show ?thesis
    unfolding applyCustomCompression_Fin [of 2, simplified]
    by (simp add: c_def [symmetric] l_def [symmetric])
qed

subsection \<open>Rounding is monotone\<close>

















subsection \<open>Rounded values of the example at the knee end\<close>





























subsection \<open>The rounded curve on finite values\<close>

lemma fl_Fin [simp]:
  "fl_add (Fin a) (Fin b) = Fin (roundDouble (a + b))"
  "fl_sub (Fin a) (Fin b) = Fin (roundDouble (a - b))"
  "fl_mul (Fin a) (Fin b) = Fin (roundDouble (a * b))"
  "b \<noteq> 0 \<Longrightarrow> fl_div (Fin a) (Fin b) = Fin (roundDouble (a / b))"
  by (simp_all add: fl_add_def fl_sub_def fl_mul_def fl_div_def)













subsection \<open>The sample loop without smoothing\<close>

lemma realSampleLoop_unsmoothed:
  "realSampleLoop t k r 0 0 e xs
     = map (\<lambda>x. x * 10 powr (- realCurve t k r (realDb \<bar>x\<bar>) / 20)) xs"
  by (induction xs arbitrary: e) (simp_all add: Let_def realFollow_def)

lemma sampleLoop_step_Fin:
  assumes "r \<noteq> 0"
  shows "sampleLoop \<lparr>threshold = Fin t, knee = Fin k, ratio = Fin r, attack = a, release = b\<rparr>
      (Fin ac) (Fin rc) (Fin e) (Fin x # rest)
    = Fin (x * 10 powr (- realCurve t k r (realDb (realFollow ac rc e \<bar>x\<bar>)) / 20))
      # sampleLoop \<lparr>threshold = Fin t, knee = Fin k, ratio = Fin r, attack = a, release = b\<rparr>
          (Fin ac) (Fin rc) (Fin (realFollow ac rc e \<bar>x\<bar>)) rest"
  by (simp add: Let_def envFollowerStep_Fin levelToDb_Fin gainReductionDb_Fin [OF assms])

section \<open>The properties\<close>

text \<open>
  Claim C1.  For a knee \<open>k \<ge> 0\<close> and a ratio \<open>r > 1\<close>, the gain reduction computed
  from a level \<open>l\<close> is 0 when \<open>l \<le> t - k/2\<close> and \<open>(l - t) * (1 - 1/r)\<close> when
  \<open>l \<ge> t + k/2\<close>, in the compressor's sample loop and in the visualization alike.
\<close>

theorem gain_curve_piecewise:
  assumes "0 \<le> k" and "1 < r"
  shows "(l \<le> t - k / 2 \<longrightarrow>
            gainReductionDb (Fin t) (Fin k) (Fin r) (Fin l) = Fin 0
          \<and> instantGainReduction (Fin t) (Fin k) (Fin r) (Fin l) = Fin 0)
       \<and> (t + k / 2 \<le> l \<longrightarrow>
            gainReductionDb (Fin t) (Fin k) (Fin r) (Fin l) = Fin ((l - t) * (1 - 1 / r))
          \<and> instantGainReduction (Fin t) (Fin k) (Fin r) (Fin l) = Fin ((l - t) * (1 - 1 / r)))"
proof -
  have r0: "r \<noteq> 0" using assms by simp
  show ?thesis
    using realCurve_below [OF assms(1), of l t r] realCurve_above [OF assms(1), of t l r]
    by (simp add: gainReductionDb_Fin [OF r0] instantGainReduction_Fin [OF r0])
qed

text \<open>The theorem at a concrete input.\<close>

theorem gain_curve_piecewise_witness:
  "gainReductionDb (Fin (- 20)) (Fin 6) (Fin 4) (Fin (- 30)) = Fin 0
   \<and> instantGainReduction (Fin (- 20)) (Fin 6) (Fin 4) (Fin (- 30)) = Fin 0
   \<and> gainReductionDb (Fin (- 20)) (Fin 6) (Fin 4) (Fin (- 10)) = Fin (15 / 2)
   \<and> instantGainReduction (Fin (- 20)) (Fin 6) (Fin 4) (Fin (- 10)) = Fin (15 / 2)"
  using gain_curve_piecewise [where k = 6 and r = 4 and l = "- 30" and t = "- 20"]
        gain_curve_piecewise [where k = 6 and r = 4 and l = "- 10" and t = "- 20"]
  by simp

text \<open>
  Claim C2.  With ratio 1 the gain reduction is 0 at every level, the linear gain
  of a zero reduction is 1, and the compressor returns every sample of every channel
  unchanged, whatever the threshold, knee, attack and release.
\<close>

theorem ratio_one_identity:
  "gainReductionDb (Fin t) (Fin k) (Fin 1) (Fin l) = Fin 0
   \<and> js_pow10 (js_div (js_neg (Fin 0)) (Fin 20)) = Fin 1
   \<and> applyCustomCompression
     \<lparr>threshold = Fin t, knee = Fin k, ratio = Fin 1, attack = Fin a, release = Fin b\<rparr>
     \<lparr>sampleRate = Fin sr, channelData = map (map Fin) chans\<rparr>
   = \<lparr>sampleRate = Fin sr, channelData = map (map Fin) chans\<rparr>"
  by (simp add: applyCustomCompression_Fin realSampleLoop_ratio1 gainReductionDb_Fin
      realCurve_ratio1)

text \<open>The theorem at the default parameters, whose ratio is 1.\<close>

theorem ratio_one_identity_witness:
  "applyCustomCompression DEFAULT_PARAMS
     \<lparr>sampleRate = Fin 44100, channelData = [[Fin 1, Fin (- 1 / 2)], [Fin 0]]\<rparr>
   = \<lparr>sampleRate = Fin 44100, channelData = [[Fin 1, Fin (- 1 / 2)], [Fin 0]]\<rparr>"
  using ratio_one_identity [where t = 0 and k = 0 and a = "0.003" and b = "0.01" and sr = 44100
          and chans = "[[1, - 1 / 2], [0]]"]
  by (simp add: DEFAULT_PARAMS_def)

text \<open>
  Claim C3.  With a ratio \<open>r \<ge> 1\<close> and a knee \<open>k \<ge> 0\<close> the output has the shape of
  the input and no output sample is larger in magnitude than its input sample.
\<close>

theorem compressor_never_louder:
  assumes "0 \<le> k" and "1 \<le> r"
  shows "list_all2 (list_all2 (\<lambda>out inp. js_le (js_abs out) (js_abs inp)))
           (channelData (applyCustomCompression
              \<lparr>threshold = Fin t, knee = Fin k, ratio = Fin r, attack = Fin a, release = Fin b\<rparr>
              \<lparr>sampleRate = Fin sr, channelData = map (map Fin) chans\<rparr>))
           (map (map Fin) chans)"
proof -
  have r0: "r \<noteq> 0" using assms by simp
  have "list_all2 (\<lambda>out inp. js_le (js_abs out) (js_abs inp))
          (map Fin (realSampleLoop t k r ac rc e xs)) (map Fin xs)" for ac rc e xs
    using realSampleLoop_bounded [OF assms, of t ac rc e xs]
    by (simp add: list_all2_map1 list_all2_map2)
  then show ?thesis
    by (simp add: applyCustomCompression_Fin [OF r0] list_all2_map1 list_all2_map2
        list_all2_same del: map_map)
qed

text \<open>The theorem at a concrete input.\<close>

theorem compressor_never_louder_witness:
  "list_all2 (list_all2 (\<lambda>out inp. js_le (js_abs out) (js_abs inp)))
           (channelData (applyCustomCompression
              \<lparr>threshold = Fin (- 20), knee = Fin 0, ratio = Fin 4, attack = Fin 0.003,
               release = Fin 0.01\<rparr>
              \<lparr>sampleRate = Fin 44100, channelData = map (map Fin) [[1, - 1 / 2]]\<rparr>))
           (map (map Fin) [[1, - 1 / 2]])"
  using compressor_never_louder [where k = 0 and r = 4 and t = "- 20" and a = "0.003" and b = "0.01"
            and sr = 44100 and chans = "[[1, - 1 / 2]]"]
  by simp

text \<open>
  Claim C4, as the code has it.  For a positive sample rate the envelope of the
  visualization is the segment-peak envelope: \<open>outputLength\<close> segments of length
  \<open>ceil(totalSamples / outputLength)\<close>, \<open>x\<close> the maximum absolute sample of the
  segment, one update \<open>s' = s + (x - s) * (1 - coeff)\<close> per segment from the state 0,
  \<open>coeff\<close> the attack coefficient when \<open>x > s\<close> and the release coefficient
  otherwise, both from times floored at 0.00001, and each output clamped at 1.
\<close>

theorem segment_peak_envelope:
  assumes "0 < sr"
  shows "calculateEnvelope (map Fin data) (Fin sr) (Fin a) (Fin b) n
     = map Fin (segmentEnvelope
         (realSegmentStep (exp (- 1 / (sr * max a 0.00001))) (exp (- 1 / (sr * max b 0.00001))))
         (ceilDiv (length data) n) data 0 [0..<n])"
proof -
  have "realCoeff sr (max t 0.00001) = exp (- 1 / (sr * max t 0.00001))" for t
    using assms by (simp add: realCoeff_def max_def)
  then show ?thesis by (simp add: calculateEnvelope_Fin)
qed

text \<open>The theorem at a concrete input.\<close>

theorem segment_peak_envelope_witness:
  "calculateEnvelope (map Fin [1]) (Fin 44100) (Fin 0.003) (Fin 0.01) 1
     = [Fin (1 - exp (- 1 / (44100 * 0.003)))]"
  using segment_peak_envelope [where sr = 44100 and data = "[1]" and a = "0.003" and b = "0.01"
          and n = 1]
  by (simp add: ceilDiv_1_1 realPeak_single realSegmentStep_def)

text \<open>
  Claim C4 as worded, with the update \<open>s' = x + (s - x) * (1 - coeff)\<close>, fails: for
  the single sample 1 at 44100 Hz with attack 0.003 the code's first envelope value is
  \<open>1 - coeff\<close>, the worded update gives \<open>coeff\<close>, and \<open>coeff > 1/2\<close>.
\<close>

theorem segment_update_counterexample:
  "calculateEnvelope (map Fin [1]) (Fin 44100) (Fin 0.003) (Fin 0.01) 1
     \<noteq> map Fin (segmentEnvelope
         (claimedSegmentStep (exp (- 1 / (44100 * max 0.003 0.00001)))
                             (exp (- 1 / (44100 * max 0.01 0.00001))))
         (ceilDiv (length [1::real]) 1) [1] 0 [0..<1])"
proof -
  have "1 - exp (- (1000 / 132300) :: real) \<noteq> exp (- (1000 / 132300))"
    using exp_gt_half by linarith
  moreover have "calculateEnvelope (map Fin [1]) (Fin 44100) (Fin 0.003) (Fin 0.01) 1
      = [Fin (1 - exp (- (1000 / 132300)))]"
    unfolding calculateEnvelope_Fin
    by (simp add: ceilDiv_1_1 realPeak_single realSegmentStep_def realCoeff_def)
  moreover have "map Fin (segmentEnvelope
         (claimedSegmentStep (exp (- 1 / (44100 * max 0.003 0.00001)))
                             (exp (- 1 / (44100 * max 0.01 0.00001))))
         (ceilDiv (length [1::real]) 1) [1] 0 [0..<1])
      = [Fin (exp (- (1000 / 132300)))]"
    by (simp add: ceilDiv_1_1 realPeak_single claimedSegmentStep_def)
  ultimately show ?thesis by simp
qed

text \<open>
  Claim C5 at attack = release = 0.  Both visualization passes floor the two times at
  0.00001, but the sample compressor does not: it divides by the zero product (the
  quotient is \<open>-Infinity\<close>), and its output for the sample 1 differs from the output
  with floored times.
\<close>

theorem compressor_does_not_floor:
  "calculateEnvelope data sr (Fin 0) (Fin 0) n
      = calculateEnvelope data sr (Fin 0.00001) (Fin 0.00001) n
   \<and> calculateGainReduction env sr thresholdDb kneeDb rat (Fin 0) (Fin 0) n
      = calculateGainReduction env sr thresholdDb kneeDb rat (Fin 0.00001) (Fin 0.00001) n
   \<and> js_div (Fin (- 1)) (js_mul (Fin 44100) (Fin 0)) = NegInf
   \<and> applyCustomCompression
        \<lparr>threshold = Fin (- 20), knee = Fin 0, ratio = Fin 2, attack = Fin 0, release = Fin 0\<rparr>
        \<lparr>sampleRate = Fin 44100, channelData = [[Fin 1]]\<rparr>
      = \<lparr>sampleRate = Fin 44100, channelData = [[Fin (10 powr (- (1 / 2)))]]\<rparr>
   \<and> applyCustomCompression
        \<lparr>threshold = Fin (- 20), knee = Fin 0, ratio = Fin 2, attack = Fin 0, release = Fin 0\<rparr>
        \<lparr>sampleRate = Fin 44100, channelData = [[Fin 1]]\<rparr>
      \<noteq> applyCustomCompression
        \<lparr>threshold = Fin (- 20), knee = Fin 0, ratio = Fin 2,
         attack = js_max (Fin 0) (Fin 0.00001), release = js_max (Fin 0) (Fin 0.00001)\<rparr>
        \<lparr>sampleRate = Fin 44100, channelData = [[Fin 1]]\<rparr>"
  using unfloored_output floored_output
  by (simp add: inf_signed_def calculateEnvelope_def calculateGainReduction_def)




text \<open>
  Claim C7.  For a buffer with a positive sample rate and a knee \<open>\<ge> 0\<close>, the
  visualization returns an envelope and a gain-reduction series of length exactly
  \<open>width\<close>, every envelope value in \<open>[0, 1]\<close> and every gain-reduction value finite
  and \<open>\<ge> 0\<close>.
\<close>

theorem visualization_shape_and_range:
  assumes "0 < sr" and "0 \<le> k"
  shows "\<exists>s. waveshapeSeries (Some \<lparr>sampleRate = Fin sr, channelData = map Fin data # others\<rparr>)
              (Fin t) (Fin k) (Fin r) (Fin a) (Fin b) n = Some s
           \<and> length (envelope s) = n
           \<and> length (gainReduction s) = n
           \<and> list_all (\<lambda>v. js_le (Fin 0) v \<and> js_le v (Fin 1)) (envelope s)
           \<and> list_all (\<lambda>v. isFinite v \<and> js_le (Fin 0) v) (gainReduction s)"
proof -
  define es where "es = segmentEnvelope
         (realSegmentStep (realCoeff sr (max a 0.00001)) (realCoeff sr (max b 0.00001)))
         (ceilDiv (length data) n) data 0 [0..<n]"
  define gr where "gr = calculateGainReduction (map Fin es) (Fin sr) (Fin t) (Fin k) (Fin r)
         (Fin a) (Fin b) n"
  have env: "calculateEnvelope (map Fin data) (Fin sr) (Fin a) (Fin b) n = map Fin es"
    by (simp add: es_def calculateEnvelope_Fin)
  have pos: "0 < max u 0.00001" "0 < max u 0.00001 * 0.001" for u :: real
    by (simp_all add: max_def)
  have es_len: "length es = n" by (simp add: es_def length_segmentEnvelope)
  have es_range: "list_all (\<lambda>v. 0 \<le> v \<and> v \<le> 1) es"
    unfolding es_def
    using realCoeff_unit [OF assms(1) pos(1)]
    by (intro segmentEnvelope_range) simp_all
  have gr_ok: "length gr = n \<and> list_all (\<lambda>v. isFinite v \<and> js_le (Fin 0) v) gr"
  proof (cases "1 < r")
    case True
    have "list_all (\<lambda>v. 0 \<le> v)
            (realGrLoop es (let c = ceilDiv (length es) n in if c = 0 then 1 else c) t k r
               (realCoeff sr (max a 0.00001 * 0.001)) (realCoeff sr (max b 0.00001 * 0.001)) 0
               [0..<n])"
      using realCoeff_unit [OF assms(1) pos(2)] assms(2) True
      by (intro realGrLoop_nonneg) simp_all
    then show ?thesis
      by (simp add: gr_def calculateGainReduction_Fin [OF True] length_realGrLoop list_all_map_Fin)
  next
    case False
    then have "gr = replicate n (Fin 0)" by (simp add: gr_def calculateGainReduction_def)
    then show ?thesis by (simp add: list_all_iff)
  qed
  show ?thesis
    using es_len es_range gr_ok
    by (simp add: waveshapeSeries_def Let_def env gr_def [symmetric] list_all_map_Fin)
qed

text \<open>The theorem at a concrete input.\<close>

theorem visualization_shape_and_range_witness:
  "\<exists>s. waveshapeSeries (Some \<lparr>sampleRate = Fin 44100, channelData = map Fin [1, - 1 / 2] # []\<rparr>)
              (Fin (- 20)) (Fin 6) (Fin 4) (Fin 0.003) (Fin 0.01) 800 = Some s
           \<and> length (envelope s) = 800
           \<and> length (gainReduction s) = 800
           \<and> list_all (\<lambda>v. js_le (Fin 0) v \<and> js_le v (Fin 1)) (envelope s)
           \<and> list_all (\<lambda>v. isFinite v \<and> js_le (Fin 0) v) (gainReduction s)"
  using visualization_shape_and_range [where sr = 44100 and k = 6 and data = "[1, - 1 / 2]"
          and others = "[]" and t = "- 20" and r = 4 and a = "0.003" and b = "0.01" and n = 800]
  by simp

text \<open>
  Claim C8.  With a ratio \<open>\<le> 1\<close> the visualization's gain-reduction series is
  \<open>outputLength\<close> zeros, for any envelope and any other argument: the smoothing
  loop is not run.
\<close>

theorem ratio_one_gain_reduction_zero:
  "js_le rat (Fin 1) \<Longrightarrow>
   calculateGainReduction env sr thresholdDb kneeDb rat att rel outputLength
     = replicate outputLength (Fin 0)"
  by (simp add: calculateGainReduction_def)

text \<open>The theorem at a concrete input.\<close>

theorem ratio_one_gain_reduction_zero_witness:
  "js_le (Fin 1) (Fin 1) \<and>
   calculateGainReduction [Fin (1 / 2), Fin 1, NaN] (Fin 44100) (Fin (- 20)) (Fin 6) (Fin 1)
      (Fin 0) (Fin 0) 3 = [Fin 0, Fin 0, Fin 0]"
  using ratio_one_gain_reduction_zero
          [where rat = "Fin 1" and env = "[Fin (1 / 2), Fin 1, NaN]" and sr = "Fin 44100"
             and thresholdDb = "Fin (- 20)" and kneeDb = "Fin 6" and att = "Fin 0"
             and rel = "Fin 0" and outputLength = 3]
  by (simp add: numeral_3_eq_3)

text \<open>
  Claim C9.  Peak normalization multiplies every sample of every channel by
  \<open>1 / maxPeak\<close> when the maximum absolute sample \<open>maxPeak\<close> over all channels
  exceeds 1 and leaves the buffer unchanged otherwise; normalizing twice gives what
  normalizing once gives.
\<close>

theorem normalize_idempotent:
  "normalizePeak \<lparr>sampleRate = sr, channelData = map (map Fin) rs\<rparr>
     = (if 1 < realPeak (concat rs)
        then \<lparr>sampleRate = sr,
              channelData = map (map (\<lambda>d. Fin (d * (1 / realPeak (concat rs))))) rs\<rparr>
        else \<lparr>sampleRate = sr, channelData = map (map Fin) rs\<rparr>)
   \<and> normalizePeak (normalizePeak \<lparr>sampleRate = sr, channelData = map (map Fin) rs\<rparr>)
     = normalizePeak \<lparr>sampleRate = sr, channelData = map (map Fin) rs\<rparr>"
proof -
  define p where "p = realPeak (concat rs)"
  have once: "normalizePeak \<lparr>sampleRate = sr, channelData = map (map Fin) qs\<rparr>
     = (if 1 < realPeak (concat qs)
        then \<lparr>sampleRate = sr,
              channelData = map (map (\<lambda>d. Fin (d * (1 / realPeak (concat qs))))) qs\<rparr>
        else \<lparr>sampleRate = sr, channelData = map (map Fin) qs\<rparr>)" for qs
    by (simp add: normalizePeak_def Let_def maxPeakOf_Fin comp_def)
  have twice: "normalizePeak (normalizePeak \<lparr>sampleRate = sr, channelData = map (map Fin) rs\<rparr>)
     = normalizePeak \<lparr>sampleRate = sr, channelData = map (map Fin) rs\<rparr>"
  proof (cases "1 < realPeak (concat rs)")
    case True
    define qs where "qs = map (map (\<lambda>d. d * (1 / realPeak (concat rs)))) rs"
    have q: "\<not> 1 < realPeak (concat qs)"
      using realPeak_scaled [OF True] by (simp add: qs_def)
    have "normalizePeak \<lparr>sampleRate = sr, channelData = map (map Fin) rs\<rparr>
        = \<lparr>sampleRate = sr, channelData = map (map Fin) qs\<rparr>"
      using True by (simp add: once qs_def comp_def)
    moreover have "normalizePeak \<lparr>sampleRate = sr, channelData = map (map Fin) qs\<rparr>
        = \<lparr>sampleRate = sr, channelData = map (map Fin) qs\<rparr>"
      using q by (simp add: once)
    ultimately show ?thesis by simp
  next
    case False
    then show ?thesis by (simp add: once)
  qed
  show ?thesis using once [of rs] twice by simp
qed

text \<open>The theorem at a buffer of two channels with peak 4.\<close>

theorem normalize_idempotent_witness:
  "normalizePeak \<lparr>sampleRate = Fin 44100, channelData = [[Fin 2, Fin (- 4)], [Fin 1]]\<rparr>
     = \<lparr>sampleRate = Fin 44100, channelData = [[Fin (1 / 2), Fin (- 1)], [Fin (1 / 4)]]\<rparr>
   \<and> normalizePeak
       (normalizePeak \<lparr>sampleRate = Fin 44100, channelData = [[Fin 2, Fin (- 4)], [Fin 1]]\<rparr>)
     = \<lparr>sampleRate = Fin 44100, channelData = [[Fin (1 / 2), Fin (- 1)], [Fin (1 / 4)]]\<rparr>"
proof -
  note n = normalize_idempotent [where sr = "Fin 44100" and rs = "[[2, - 4], [1]]"]
  have once: "normalizePeak \<lparr>sampleRate = Fin 44100, channelData = [[Fin 2, Fin (- 4)], [Fin 1]]\<rparr>
     = \<lparr>sampleRate = Fin 44100, channelData = [[Fin (1 / 2), Fin (- 1)], [Fin (1 / 4)]]\<rparr>"
    using n [THEN conjunct1] by (simp add: realPeak_example)
  have twice: "normalizePeak
       (normalizePeak \<lparr>sampleRate = Fin 44100, channelData = [[Fin 2, Fin (- 4)], [Fin 1]]\<rparr>)
     = normalizePeak \<lparr>sampleRate = Fin 44100, channelData = [[Fin 2, Fin (- 4)], [Fin 1]]\<rparr>"
    using n [THEN conjunct2] by simp
  show ?thesis
    by (rule conjI, rule once, subst twice, rule once)
qed

text \<open>
  Claim C10.  With an attack or release of 0 the coefficient expression divides by
  zero and evaluates to 0, and the compressor runs its sample loop with that
  coefficient.  In the phase of a zero coefficient the follower's new state is the
  absolute sample itself: the sample is scaled by the gain of that level and the loop
  goes on from that state.  With attack and release both 0 every output sample is the
  input sample scaled by the gain of its own absolute value.  For finite parameters
  with a ratio \<open>\<ge> 1\<close> and finite samples the compressor returns a buffer of the
  input's shape whose samples are all finite.
\<close>

theorem zero_time_constant:
  assumes "0 < sr" and "1 \<le> r"
  shows "timeCoeff (Fin sr) (Fin 0) = Fin 0
       \<and> channelData (applyCustomCompression
            \<lparr>threshold = Fin t, knee = Fin k, ratio = Fin r, attack = Fin 0, release = Fin b\<rparr>
            \<lparr>sampleRate = Fin sr, channelData = map (map Fin) chans\<rparr>)
         = map (sampleLoop
                 \<lparr>threshold = Fin t, knee = Fin k, ratio = Fin r, attack = Fin 0, release = Fin b\<rparr>
                 (Fin 0) (timeCoeff (Fin sr) (Fin b)) (Fin 0))
             (map (map Fin) chans)
       \<and> channelData (applyCustomCompression
            \<lparr>threshold = Fin t, knee = Fin k, ratio = Fin r, attack = Fin a, release = Fin 0\<rparr>
            \<lparr>sampleRate = Fin sr, channelData = map (map Fin) chans\<rparr>)
         = map (sampleLoop
                 \<lparr>threshold = Fin t, knee = Fin k, ratio = Fin r, attack = Fin a, release = Fin 0\<rparr>
                 (timeCoeff (Fin sr) (Fin a)) (Fin 0) (Fin 0))
             (map (map Fin) chans)
       \<and> (e < \<bar>x\<bar> \<longrightarrow>
            sampleLoop \<lparr>threshold = Fin t, knee = Fin k, ratio = Fin r, attack = pa, release = pb\<rparr>
              (Fin 0) (Fin rc) (Fin e) (Fin x # rest)
            = Fin (x * 10 powr (- realCurve t k r (realDb \<bar>x\<bar>) / 20))
              # sampleLoop \<lparr>threshold = Fin t, knee = Fin k, ratio = Fin r, attack = pa, release = pb\<rparr>
                  (Fin 0) (Fin rc) (Fin \<bar>x\<bar>) rest)
       \<and> (\<bar>x\<bar> \<le> e \<longrightarrow>
            sampleLoop \<lparr>threshold = Fin t, knee = Fin k, ratio = Fin r, attack = pa, release = pb\<rparr>
              (Fin ac) (Fin 0) (Fin e) (Fin x # rest)
            = Fin (x * 10 powr (- realCurve t k r (realDb \<bar>x\<bar>) / 20))
              # sampleLoop \<lparr>threshold = Fin t, knee = Fin k, ratio = Fin r, attack = pa, release = pb\<rparr>
                  (Fin ac) (Fin 0) (Fin \<bar>x\<bar>) rest)
       \<and> applyCustomCompression
            \<lparr>threshold = Fin t, knee = Fin k, ratio = Fin r, attack = Fin 0, release = Fin 0\<rparr>
            \<lparr>sampleRate = Fin sr, channelData = map (map Fin) chans\<rparr>
         = \<lparr>sampleRate = Fin sr,
            channelData =
              map (map (\<lambda>x. Fin (x * 10 powr (- realCurve t k r (realDb \<bar>x\<bar>) / 20)))) chans\<rparr>
       \<and> list_all (list_all isFinite)
           (channelData (applyCustomCompression
              \<lparr>threshold = Fin t, knee = Fin k, ratio = Fin r, attack = Fin a, release = Fin b\<rparr>
              \<lparr>sampleRate = Fin sr, channelData = map (map Fin) chans\<rparr>))
       \<and> map length
           (channelData (applyCustomCompression
              \<lparr>threshold = Fin t, knee = Fin k, ratio = Fin r, attack = Fin a, release = Fin b\<rparr>
              \<lparr>sampleRate = Fin sr, channelData = map (map Fin) chans\<rparr>))
         = map length chans"
proof -
  have r0: "r \<noteq> 0" using assms by simp
  have c: "timeCoeff (Fin sr) (Fin 0) = Fin 0"
    by (simp add: timeCoeff_Fin realCoeff_def)
  have link_a: "channelData (applyCustomCompression
            \<lparr>threshold = Fin t, knee = Fin k, ratio = Fin r, attack = Fin 0, release = Fin b\<rparr>
            \<lparr>sampleRate = Fin sr, channelData = map (map Fin) chans\<rparr>)
         = map (sampleLoop
                 \<lparr>threshold = Fin t, knee = Fin k, ratio = Fin r, attack = Fin 0, release = Fin b\<rparr>
                 (Fin 0) (timeCoeff (Fin sr) (Fin b)) (Fin 0))
             (map (map Fin) chans)"
    by (simp add: applyCustomCompression_def Let_def c)
  have link_r: "channelData (applyCustomCompression
            \<lparr>threshold = Fin t, knee = Fin k, ratio = Fin r, attack = Fin a, release = Fin 0\<rparr>
            \<lparr>sampleRate = Fin sr, channelData = map (map Fin) chans\<rparr>)
         = map (sampleLoop
                 \<lparr>threshold = Fin t, knee = Fin k, ratio = Fin r, attack = Fin a, release = Fin 0\<rparr>
                 (timeCoeff (Fin sr) (Fin a)) (Fin 0) (Fin 0))
             (map (map Fin) chans)"
    by (simp add: applyCustomCompression_def Let_def c)
  have step_a: "e < \<bar>x\<bar> \<longrightarrow>
            sampleLoop \<lparr>threshold = Fin t, knee = Fin k, ratio = Fin r, attack = pa, release = pb\<rparr>
              (Fin 0) (Fin rc) (Fin e) (Fin x # rest)
            = Fin (x * 10 powr (- realCurve t k r (realDb \<bar>x\<bar>) / 20))
              # sampleLoop \<lparr>threshold = Fin t, knee = Fin k, ratio = Fin r, attack = pa, release = pb\<rparr>
                  (Fin 0) (Fin rc) (Fin \<bar>x\<bar>) rest"
    unfolding sampleLoop_step_Fin [OF r0] by (simp add: realFollow_def)
  have step_r: "\<bar>x\<bar> \<le> e \<longrightarrow>
            sampleLoop \<lparr>threshold = Fin t, knee = Fin k, ratio = Fin r, attack = pa, release = pb\<rparr>
              (Fin ac) (Fin 0) (Fin e) (Fin x # rest)
            = Fin (x * 10 powr (- realCurve t k r (realDb \<bar>x\<bar>) / 20))
              # sampleLoop \<lparr>threshold = Fin t, knee = Fin k, ratio = Fin r, attack = pa, release = pb\<rparr>
                  (Fin ac) (Fin 0) (Fin \<bar>x\<bar>) rest"
    unfolding sampleLoop_step_Fin [OF r0] by (simp add: realFollow_def)
  have both: "applyCustomCompression
            \<lparr>threshold = Fin t, knee = Fin k, ratio = Fin r, attack = Fin 0, release = Fin 0\<rparr>
            \<lparr>sampleRate = Fin sr, channelData = map (map Fin) chans\<rparr>
         = \<lparr>sampleRate = Fin sr,
            channelData =
              map (map (\<lambda>x. Fin (x * 10 powr (- realCurve t k r (realDb \<bar>x\<bar>) / 20)))) chans\<rparr>"
    unfolding applyCustomCompression_Fin [OF r0]
    by (simp add: realCoeff_def realSampleLoop_unsmoothed comp_def)
  have fin: "list_all (list_all isFinite)
           (channelData (applyCustomCompression
              \<lparr>threshold = Fin t, knee = Fin k, ratio = Fin r, attack = Fin a, release = Fin b\<rparr>
              \<lparr>sampleRate = Fin sr, channelData = map (map Fin) chans\<rparr>))
       \<and> map length
           (channelData (applyCustomCompression
              \<lparr>threshold = Fin t, knee = Fin k, ratio = Fin r, attack = Fin a, release = Fin b\<rparr>
              \<lparr>sampleRate = Fin sr, channelData = map (map Fin) chans\<rparr>))
         = map length chans"
    unfolding applyCustomCompression_Fin [OF r0]
    by (simp add: list_all_iff length_realSampleLoop comp_def)
  show ?thesis
    using c link_a link_r step_a step_r both fin by (intro conjI) simp_all
qed

text \<open>The theorem at the sample 1, threshold \<open>-20\<close>, ratio 4: the gain is \<open>10^(-3/4)\<close>.\<close>

theorem zero_time_constant_witness:
  "timeCoeff (Fin 44100) (Fin 0) = Fin 0
   \<and> sampleLoop \<lparr>threshold = Fin (- 20), knee = Fin 0, ratio = Fin 4, attack = Fin 0, release = Fin 0\<rparr>
        (Fin 0) (Fin 0) (Fin 0) [Fin 1] = [Fin (10 powr (- (3 / 4)))]
   \<and> sampleLoop \<lparr>threshold = Fin (- 20), knee = Fin 0, ratio = Fin 4, attack = Fin 0, release = Fin 0\<rparr>
        (Fin 0) (Fin 0) (Fin 1) [Fin 1] = [Fin (10 powr (- (3 / 4)))]
   \<and> applyCustomCompression
        \<lparr>threshold = Fin (- 20), knee = Fin 0, ratio = Fin 4, attack = Fin 0, release = Fin 0\<rparr>
        \<lparr>sampleRate = Fin 44100, channelData = [[Fin 1]]\<rparr>
      = \<lparr>sampleRate = Fin 44100, channelData = [[Fin (10 powr (- (3 / 4)))]]\<rparr>
   \<and> list_all (list_all isFinite)
        (channelData (applyCustomCompression
           \<lparr>threshold = Fin (- 20), knee = Fin 0, ratio = Fin 4, attack = Fin 0, release = Fin 0\<rparr>
           \<lparr>sampleRate = Fin 44100, channelData = [[Fin 1]]\<rparr>))"
proof -
  have p1: "(0::real) < 44100" and p2: "(1::real) \<le> 4" by simp_all
  note za = zero_time_constant [OF p1 p2, where t = "- 20" and k = 0 and a = 0 and b = 0
          and chans = "[[1]]" and e = 0 and x = 1 and rest = "[]" and rc = 0 and ac = 0
          and pa = "Fin 0" and pb = "Fin 0"]
  note zr = zero_time_constant [OF p1 p2, where t = "- 20" and k = 0 and a = 0 and b = 0
          and chans = "[[1]]" and e = 1 and x = 1 and rest = "[]" and rc = 0 and ac = 0
          and pa = "Fin 0" and pb = "Fin 0"]
  have w1: "timeCoeff (Fin 44100) (Fin 0) = Fin 0"
    using za by (rule conjunct1)
  have w2: "sampleLoop
        \<lparr>threshold = Fin (- 20), knee = Fin 0, ratio = Fin 4, attack = Fin 0, release = Fin 0\<rparr>
        (Fin 0) (Fin 0) (Fin 0) [Fin 1] = [Fin (10 powr (- (3 / 4)))]"
    using za [THEN conjunct2, THEN conjunct2, THEN conjunct2, THEN conjunct1]
    by (simp add: realDb_def realCurve_def del: sampleLoop.simps(2))
  have w3: "sampleLoop
        \<lparr>threshold = Fin (- 20), knee = Fin 0, ratio = Fin 4, attack = Fin 0, release = Fin 0\<rparr>
        (Fin 0) (Fin 0) (Fin 1) [Fin 1] = [Fin (10 powr (- (3 / 4)))]"
    using zr [THEN conjunct2, THEN conjunct2, THEN conjunct2, THEN conjunct2, THEN conjunct1]
    by (simp add: realDb_def realCurve_def del: sampleLoop.simps(2))
  have w4: "applyCustomCompression
        \<lparr>threshold = Fin (- 20), knee = Fin 0, ratio = Fin 4, attack = Fin 0, release = Fin 0\<rparr>
        \<lparr>sampleRate = Fin 44100, channelData = [[Fin 1]]\<rparr>
      = \<lparr>sampleRate = Fin 44100, channelData = [[Fin (10 powr (- (3 / 4)))]]\<rparr>"
    using za [THEN conjunct2, THEN conjunct2, THEN conjunct2, THEN conjunct2, THEN conjunct2,
              THEN conjunct1]
    by (simp add: realDb_def realCurve_def)
  have w5: "list_all (list_all isFinite)
        (channelData (applyCustomCompression
           \<lparr>threshold = Fin (- 20), knee = Fin 0, ratio = Fin 4, attack = Fin 0, release = Fin 0\<rparr>
           \<lparr>sampleRate = Fin 44100, channelData = [[Fin 1]]\<rparr>))"
    by (simp add: w4)
  show ?thesis using w1 w2 w3 w4 w5 by (intro conjI)
qed

end
